theory Spec2Isabelle
  imports Complex_Main
begin

section \<open>Data model\<close>

subsection \<open>Numbers\<close>

text \<open>
  Amounts and balances are TypeScript \<open>number\<close>s. An amount reaches the decider from
  a request body through \<open>Number(amount)\<close>, so it can be any double, \<open>NaN\<close> and the
  infinities included. The model keeps these special values, because the guards of the
  decider are comparisons and every comparison with \<open>NaN\<close> is false. Finite values are
  real numbers: rounding and overflow of finite sums are not modelled.
\<close>

datatype number = Num real | PInf | NInf | NaN

text \<open>\<open>a + b\<close> on numbers.\<close>

fun num_add :: "number \<Rightarrow> number \<Rightarrow> number" where
  "num_add NaN _ = NaN"
| "num_add _ NaN = NaN"
| "num_add PInf NInf = NaN"
| "num_add NInf PInf = NaN"
| "num_add PInf _ = PInf"
| "num_add _ PInf = PInf"
| "num_add NInf _ = NInf"
| "num_add _ NInf = NInf"
| "num_add (Num a) (Num b) = Num (a + b)"

text \<open>\<open>a - b\<close> on numbers.\<close>

fun num_sub :: "number \<Rightarrow> number \<Rightarrow> number" where
  "num_sub NaN _ = NaN"
| "num_sub _ NaN = NaN"
| "num_sub PInf PInf = NaN"
| "num_sub NInf NInf = NaN"
| "num_sub PInf _ = PInf"
| "num_sub _ NInf = PInf"
| "num_sub NInf _ = NInf"
| "num_sub _ PInf = NInf"
| "num_sub (Num a) (Num b) = Num (a - b)"

text \<open>\<open>a < b\<close> on numbers: false as soon as one side is \<open>NaN\<close>.\<close>

fun num_lt :: "number \<Rightarrow> number \<Rightarrow> bool" where
  "num_lt NaN _ = False"
| "num_lt _ NaN = False"
| "num_lt (Num a) (Num b) = (a < b)"
| "num_lt NInf NInf = False"
| "num_lt NInf _ = True"
| "num_lt _ NInf = False"
| "num_lt PInf _ = False"
| "num_lt _ PInf = True"

text \<open>\<open>a <= b\<close> on numbers: false as soon as one side is \<open>NaN\<close>.\<close>

fun num_le :: "number \<Rightarrow> number \<Rightarrow> bool" where
  "num_le NaN _ = False"
| "num_le _ NaN = False"
| "num_le (Num a) (Num b) = (a \<le> b)"
| "num_le NInf _ = True"
| "num_le _ PInf = True"
| "num_le PInf _ = False"
| "num_le _ NInf = False"

text \<open>\<open>a > b\<close> on numbers is \<open>b < a\<close>.\<close>

definition num_gt :: "number \<Rightarrow> number \<Rightarrow> bool" where
  "num_gt a b = num_lt b a"

subsection \<open>Events and commands\<close>

text \<open>
  A \<open>Date\<close> is its time value in milliseconds. Versions are integers: the decider numbers
  its events \<open>state.version + 1\<close> from 0, and the store only accepts a version equal to
  an integer it has computed, plus one. The source holds a version in a double, where
  adding 1 to an integer is exact below \<open>2 ^ 53\<close>; the model's \<open>+ 1\<close> is the
  integers', so a statement about \<open>version + 1\<close> is made for versions from 0 below
  \<open>2 ^ 53\<close> only.
\<close>

type_synonym Date = int

text \<open>
  The union \<open>Event\<close> of events.ts: the \<open>eventType\<close> tag with the \<open>data\<close> payload that
  the tag fixes.
\<close>

datatype EventData =
    USER_CREATED string string string
  | FUNDS_DEPOSITED number string
  | FUNDS_WITHDRAWN number string
  | ACCOUNT_CLOSED string

record Event =
  eventId :: string
  aggregateId :: string
  timestamp :: Date
  version :: int
  data :: EventData

text \<open>
  The union \<open>Command\<close> of commands.ts. \<open>OTHER_COMMAND\<close> stands for a value whose
  \<open>commandType\<close> is none of the four constants, which the \<open>default\<close> branch of
  \<open>handleCommand\<close> is written for.
\<close>

datatype CommandData =
    CREATE_USER string string
  | DEPOSIT_FUNDS number string
  | WITHDRAW_FUNDS number string
  | CLOSE_ACCOUNT string
  | OTHER_COMMAND string

record Command =
  commandId :: string
  cmd_aggregateId :: string
  cmd_timestamp :: Date
  cmd_data :: CommandData

subsection \<open>Errors\<close>

text \<open>
  The source throws \<open>Error\<close> with a message everywhere. The constructors follow the
  taxonomy of the specification by the place of the \<open>throw\<close>: the version check of the
  store, the validation loop of the store, and the decider. \<open>ConcurrencyError e c\<close>
  carries the expected and the current version, which its message prints;
  the other two carry the message.
\<close>

datatype error =
    ConcurrencyError int int
  | ValidationError string
  | DomainError string

section \<open>Event store (InMemoryEventStore)\<close>

text \<open>The store's state is its private array \<open>events\<close>, in insertion order.\<close>

type_synonym EventStore = "Event list"

text \<open>\<open>Math.max(...xs)\<close> for a list that is not empty.\<close>

fun Math_max :: "int \<Rightarrow> int list \<Rightarrow> int" where
  "Math_max m [] = m"
| "Math_max m (x # xs) = Math_max (max m x) xs"

text \<open>The first lines of \<open>saveEvents\<close>: the current version of an aggregate.\<close>

definition currentVersion :: "EventStore \<Rightarrow> string \<Rightarrow> int" where
  "currentVersion store aid =
     (case map version (filter (\<lambda>e. aggregateId e = aid) store) of
        [] \<Rightarrow> 0
      | v # vs \<Rightarrow> Math_max v vs)"

text \<open>
  The validation loop of \<open>saveEvents\<close>: the first event that fails a check throws.
  \<open>cv\<close> is the loop-invariant \<open>currentVersion\<close>; the loop does not advance it.
\<close>

fun validateEvents :: "string \<Rightarrow> int \<Rightarrow> Event list \<Rightarrow> error option" where
  "validateEvents aid cv [] = None"
| "validateEvents aid cv (event # events) =
     (if aggregateId event \<noteq> aid then
        Some (ValidationError ''Event aggregateId does not match'')
      else if version event \<noteq> cv + 1 then
        Some (ValidationError ''Event version is not sequential'')
      else validateEvents aid cv events)"

text \<open>
  \<open>saveEvents\<close>: the outcome (\<open>Inl\<close> the thrown error) and the store's array after the
  call. The only write is the final \<open>push\<close>.
\<close>

definition saveEvents ::
  "EventStore \<Rightarrow> string \<Rightarrow> Event list \<Rightarrow> int \<Rightarrow> (error + unit) \<times> EventStore" where
  "saveEvents store aid events expectedVersion =
     (let cv = currentVersion store aid in
      if cv \<noteq> expectedVersion then (Inl (ConcurrencyError expectedVersion cv), store)
      else
        (case validateEvents aid cv events of
           Some err \<Rightarrow> (Inl err, store)
         | None \<Rightarrow> (Inr (), store @ events)))"

text \<open>\<open>getEventsForAggregate\<close>: the aggregate's events, stably sorted by version.\<close>

definition getEventsForAggregate :: "EventStore \<Rightarrow> string \<Rightarrow> Event list" where
  "getEventsForAggregate store aid =
     sort_key version (filter (\<lambda>event. aggregateId event = aid) store)"

text \<open>\<open>getAllEvents\<close>: a copy of the log, stably sorted by timestamp.\<close>

definition getAllEvents :: "EventStore \<Rightarrow> Event list" where
  "getAllEvents store = sort_key timestamp store"

section \<open>Decider (AccountAggregate)\<close>

record AccountState =
  state_aggregateId :: string
  state_version :: int
  state_userId :: "string option"
  state_name :: "string option"
  state_email :: "string option"
  state_balance :: number
  state_currency :: string
  state_isClosed :: bool

text \<open>The constructor: the zero state of an aggregate.\<close>

definition AccountAggregate :: "string \<Rightarrow> AccountState" where
  "AccountAggregate aid =
     \<lparr> state_aggregateId = aid, state_version = 0, state_userId = None,
       state_name = None, state_email = None, state_balance = Num 0,
       state_currency = ''USD'', state_isClosed = False \<rparr>"

text \<open>
  The test \<open>if (this.state.userId)\<close> on an optional string: \<open>undefined\<close> and the empty
  string are falsy.
\<close>

definition truthy :: "string option \<Rightarrow> bool" where
  "truthy s = (case s of None \<Rightarrow> False | Some x \<Rightarrow> x \<noteq> [])"

text \<open>
  The handlers read the aggregate's state and return events or throw. Each one is given
  the state, the fields of the command it reads, and the two values it takes from the
  environment: \<open>eid\<close> for \<open>uuidv4()\<close> and \<open>now\<close> for \<open>new Date()\<close>. It returns the
  outcome (\<open>Inl\<close> the thrown error) and the state the aggregate is left in.
\<close>

definition handleCreateUser ::
  "AccountState \<Rightarrow> string \<Rightarrow> string \<Rightarrow> string \<Rightarrow> string \<Rightarrow> Date
     \<Rightarrow> (error + Event list) \<times> AccountState" where
  "handleCreateUser st aid name email eid now =
     (if truthy (state_userId st) then (Inl (DomainError ''User already exists''), st)
      else
        (Inr [\<lparr> eventId = eid, aggregateId = aid, timestamp = now,
                version = state_version st + 1,
                data = USER_CREATED aid name email \<rparr>], st))"

definition handleDepositFunds ::
  "AccountState \<Rightarrow> string \<Rightarrow> number \<Rightarrow> string \<Rightarrow> string \<Rightarrow> Date
     \<Rightarrow> (error + Event list) \<times> AccountState" where
  "handleDepositFunds st aid amount currency eid now =
     (if state_isClosed st then
        (Inl (DomainError ''Cannot deposit to closed account''), st)
      else if num_le amount (Num 0) then
        (Inl (DomainError ''Deposit amount must be positive''), st)
      else
        (Inr [\<lparr> eventId = eid, aggregateId = aid, timestamp = now,
                version = state_version st + 1,
                data = FUNDS_DEPOSITED amount currency \<rparr>], st))"

definition handleWithdrawFunds ::
  "AccountState \<Rightarrow> string \<Rightarrow> number \<Rightarrow> string \<Rightarrow> string \<Rightarrow> Date
     \<Rightarrow> (error + Event list) \<times> AccountState" where
  "handleWithdrawFunds st aid amount currency eid now =
     (if state_isClosed st then
        (Inl (DomainError ''Cannot withdraw from closed account''), st)
      else if num_le amount (Num 0) then
        (Inl (DomainError ''Withdrawal amount must be positive''), st)
      else if num_lt (state_balance st) amount then
        (Inl (DomainError ''Insufficient funds''), st)
      else
        (Inr [\<lparr> eventId = eid, aggregateId = aid, timestamp = now,
                version = state_version st + 1,
                data = FUNDS_WITHDRAWN amount currency \<rparr>], st))"

definition handleCloseAccount ::
  "AccountState \<Rightarrow> string \<Rightarrow> string \<Rightarrow> string \<Rightarrow> Date
     \<Rightarrow> (error + Event list) \<times> AccountState" where
  "handleCloseAccount st aid reason eid now =
     (if state_isClosed st then (Inl (DomainError ''Account already closed''), st)
      else
        (Inr [\<lparr> eventId = eid, aggregateId = aid, timestamp = now,
                version = state_version st + 1,
                data = ACCOUNT_CLOSED reason \<rparr>], st))"

definition handleCommand ::
  "AccountState \<Rightarrow> Command \<Rightarrow> string \<Rightarrow> Date \<Rightarrow> (error + Event list) \<times> AccountState" where
  "handleCommand st command eid now =
     (case cmd_data command of
        CREATE_USER name email \<Rightarrow>
          handleCreateUser st (cmd_aggregateId command) name email eid now
      | DEPOSIT_FUNDS amount currency \<Rightarrow>
          handleDepositFunds st (cmd_aggregateId command) amount currency eid now
      | WITHDRAW_FUNDS amount currency \<Rightarrow>
          handleWithdrawFunds st (cmd_aggregateId command) amount currency eid now
      | CLOSE_ACCOUNT reason \<Rightarrow>
          handleCloseAccount st (cmd_aggregateId command) reason eid now
      | OTHER_COMMAND _ \<Rightarrow> (Inl (DomainError ''Unknown command type''), st))"

text \<open>\<open>applyEvent\<close>: the version first, then the fields of the event's type.\<close>

definition applyEvent :: "AccountState \<Rightarrow> Event \<Rightarrow> AccountState" where
  "applyEvent st event =
     (let st1 = st\<lparr> state_version := version event \<rparr> in
      case data event of
        USER_CREATED userId name email \<Rightarrow>
          st1\<lparr> state_userId := Some userId, state_name := Some name,
               state_email := Some email \<rparr>
      | FUNDS_DEPOSITED amount currency \<Rightarrow>
          st1\<lparr> state_balance := num_add (state_balance st1) amount \<rparr>
      | FUNDS_WITHDRAWN amount currency \<Rightarrow>
          st1\<lparr> state_balance := num_sub (state_balance st1) amount \<rparr>
      | ACCOUNT_CLOSED reason \<Rightarrow> st1\<lparr> state_isClosed := True \<rparr>)"

text \<open>\<open>loadFromHistory\<close>: the loop over the events, in their order.\<close>

definition loadFromHistory :: "AccountState \<Rightarrow> Event list \<Rightarrow> AccountState" where
  "loadFromHistory st events = foldl applyEvent st events"

text \<open>\<open>getState\<close> returns a copy of the state object.\<close>

definition getState :: "AccountState \<Rightarrow> AccountState" where
  "getState st = st"

section \<open>Projection (AccountProjection)\<close>

record AccountView =
  view_aggregateId :: string
  view_userId :: "string option"
  view_name :: "string option"
  view_email :: "string option"
  view_balance :: number
  view_currency :: string
  view_isClosed :: bool
  view_lastActivity :: Date

text \<open>
  The projection's state is its private map \<open>views\<close> from aggregate id to view. A view
  is an object the map holds by reference and \<open>processEvent\<close> updates in place, so the
  map entry after the call is the updated view.
\<close>

type_synonym Projection = "string \<rightharpoonup> AccountView"

text \<open>A new projection: \<open>views = new Map()\<close>.\<close>

definition AccountProjection :: Projection where
  "AccountProjection = Map.empty"

definition processEvent :: "Projection \<Rightarrow> Event \<Rightarrow> Projection" where
  "processEvent views event =
     (let aid = aggregateId event;
          view0 = (case views aid of
                     Some v \<Rightarrow> v
                   | None \<Rightarrow>
                       \<lparr> view_aggregateId = aid, view_userId = None, view_name = None,
                         view_email = None, view_balance = Num 0,
                         view_currency = ''USD'', view_isClosed = False,
                         view_lastActivity = timestamp event \<rparr>);
          view1 = (case data event of
                     USER_CREATED userId name email \<Rightarrow>
                       view0\<lparr> view_userId := Some userId, view_name := Some name,
                              view_email := Some email \<rparr>
                   | FUNDS_DEPOSITED amount currency \<Rightarrow>
                       view0\<lparr> view_balance := num_add (view_balance view0) amount,
                              view_currency := currency \<rparr>
                   | FUNDS_WITHDRAWN amount currency \<Rightarrow>
                       view0\<lparr> view_balance := num_sub (view_balance view0) amount \<rparr>
                   | ACCOUNT_CLOSED reason \<Rightarrow> view0\<lparr> view_isClosed := True \<rparr>)
      in views(aid \<mapsto> view1\<lparr> view_lastActivity := timestamp event \<rparr>))"

definition getAccountView :: "Projection \<Rightarrow> string \<Rightarrow> AccountView option" where
  "getAccountView views aid = views aid"

text \<open>\<open>rebuildFromEvents\<close>: \<open>this.views.clear()\<close>, then the loop over the events.\<close>

definition rebuildFromEvents :: "Projection \<Rightarrow> Event list \<Rightarrow> Projection" where
  "rebuildFromEvents views events = foldl processEvent Map.empty events"

text \<open>
  Calling \<open>processEvent\<close> once per event of a list, in order, on a given projection:
  the incremental use of the projection that a rebuild is compared with.
\<close>

primrec processEach :: "Projection \<Rightarrow> Event list \<Rightarrow> Projection" where
  "processEach views [] = views"
| "processEach views (event # events) = processEach (processEvent views event) events"

section \<open>Command handling of the server\<close>

text \<open>
  The server owns one event store and one projection. Its \<open>handleCommand\<close> loads the
  aggregate from the store, lets it decide, appends the new events with the number of
  loaded events as the expected version, and feeds them to the projection. An error
  thrown by the aggregate or by the store ends the call where it is thrown.
\<close>

record Server =
  eventStore :: EventStore
  accountProjection :: Projection

definition server_handleCommand ::
  "Server \<Rightarrow> Command \<Rightarrow> string \<Rightarrow> Date \<Rightarrow> (error + Event list) \<times> Server" where
  "server_handleCommand srv command eid now =
     (let aggregate = AccountAggregate (cmd_aggregateId command);
          events = getEventsForAggregate (eventStore srv) (cmd_aggregateId command);
          aggregate = loadFromHistory aggregate events
      in case fst (handleCommand aggregate command eid now) of
           Inl err \<Rightarrow> (Inl err, srv)
         | Inr newEvents \<Rightarrow>
             (let currentVersion = int (length events) in
              case saveEvents (eventStore srv) (cmd_aggregateId command) newEvents
                     currentVersion of
                (Inl err, store) \<Rightarrow> (Inl err, srv\<lparr> eventStore := store \<rparr>)
              | (Inr _, store) \<Rightarrow>
                  (Inr newEvents,
                   srv\<lparr> eventStore := store,
                        accountProjection :=
                          foldl processEvent (accountProjection srv) newEvents \<rparr>)))"

section \<open>Reference notions the properties are stated with\<close>

text \<open>
  The version of an aggregate as the event log's contract words it: the maximum version
  among the aggregate's stored events, 0 if it has none.
\<close>

definition latestSequence :: "EventStore \<Rightarrow> string \<Rightarrow> int" where
  "latestSequence store aid =
     (let vs = map version (filter (\<lambda>e. aggregateId e = aid) store)
      in if vs = [] then 0 else Max (set vs))"

text \<open>
  A batch as the event log's contract words it: each event belongs to the aggregate, and
  the versions are \<open>v + 1\<close>, \<open>v + 2\<close>, ... in order.
\<close>

fun contiguousBatch :: "string \<Rightarrow> int \<Rightarrow> Event list \<Rightarrow> bool" where
  "contiguousBatch aid v [] = True"
| "contiguousBatch aid v (e # es) =
     (aggregateId e = aid \<and> version e = v + 1 \<and> contiguousBatch aid (v + 1) es)"

section \<open>Properties of the event store\<close>

lemma Math_max_Max: "Math_max m xs = Max (set (m # xs))"
proof (induction xs arbitrary: m)
  case Nil
  show ?case by simp
next
  case (Cons x xs)
  have "Max (set (m # x # xs)) = Max (insert (max m x) (set xs))"
    by (cases "xs = []") (auto simp: max.assoc max.commute max.left_commute)
  then show ?case using Cons by simp
qed

lemma currentVersion_latestSequence: "currentVersion store aid = latestSequence store aid"
  unfolding currentVersion_def latestSequence_def Let_def
  by (cases "map version (filter (\<lambda>e. aggregateId e = aid) store)")
     (simp_all add: Math_max_Max del: Max_insert)

lemma validateEvents_None_iff:
  "validateEvents aid cv events = None \<longleftrightarrow>
     (\<forall>e \<in> set events. aggregateId e = aid \<and> version e = cv + 1)"
  by (induction events) auto

lemma validateEvents_is_validation:
  "validateEvents aid cv events = Some err \<Longrightarrow> \<exists>msg. err = ValidationError msg"
  by (induction events) (auto split: if_splits)

lemma saveEvents_failure_keeps_store:
  "fst (saveEvents store aid events expectedVersion) = Inl err \<Longrightarrow>
     snd (saveEvents store aid events expectedVersion) = store"
  by (auto simp: saveEvents_def Let_def split: if_splits option.splits)

text \<open>
  What \<open>saveEvents\<close> accepts when the expected version is current: the batches whose
  events all belong to the aggregate and all carry the one version
  \<open>expectedVersion + 1\<close>. Any other batch fails in the validation loop, and the store
  is unchanged.
\<close>

lemma saveEvents_accepts_iff:
  assumes "expectedVersion = latestSequence store aid"
  shows "saveEvents store aid events expectedVersion = (Inr (), store @ events) \<longleftrightarrow>
           (\<forall>e \<in> set events. aggregateId e = aid \<and> version e = expectedVersion + 1)"
    and "saveEvents store aid events expectedVersion \<noteq> (Inr (), store @ events) \<longleftrightarrow>
           (\<exists>msg. saveEvents store aid events expectedVersion
                    = (Inl (ValidationError msg), store))"
proof -
  have cv: "currentVersion store aid = expectedVersion"
    using assms by (simp add: currentVersion_latestSequence)
  show "saveEvents store aid events expectedVersion = (Inr (), store @ events) \<longleftrightarrow>
           (\<forall>e \<in> set events. aggregateId e = aid \<and> version e = expectedVersion + 1)"
    using validateEvents_None_iff [of aid expectedVersion events]
    by (auto simp: saveEvents_def cv split: option.splits)
  show "saveEvents store aid events expectedVersion \<noteq> (Inr (), store @ events) \<longleftrightarrow>
           (\<exists>msg. saveEvents store aid events expectedVersion
                    = (Inl (ValidationError msg), store))"
    using validateEvents_is_validation [of aid expectedVersion events]
    by (auto simp: saveEvents_def cv split: option.splits)
qed

text \<open>
  C1. The claim: with the expected version current, \<open>append\<close> succeeds exactly for the
  batches of the aggregate's own events whose versions run \<open>expectedVersion + 1\<close>,
  \<open>expectedVersion + 2\<close>, ..., and so a two-event batch with versions
  \<open>expectedVersion + 1\<close> and \<open>expectedVersion + 2\<close> succeeds. The validation loop of
  \<open>saveEvents\<close> compares every event of the batch with \<open>currentVersion + 1\<close> and never
  advances \<open>currentVersion\<close>: on the empty store, the two-event batch with versions 1
  and 2 for aggregate \<open>E\<close>, a contiguous batch from version 0, is rejected with
  "Event version is not sequential". The store stays empty.
\<close>

theorem saveEvents_rejects_contiguous_pair:
  "latestSequence [] ''E'' = 0
   \<and> contiguousBatch ''E'' 0
       [\<lparr> eventId = ''a'', aggregateId = ''E'', timestamp = 1, version = 1,
          data = FUNDS_DEPOSITED (Num 10) ''USD'' \<rparr>,
        \<lparr> eventId = ''b'', aggregateId = ''E'', timestamp = 2, version = 2,
          data = FUNDS_DEPOSITED (Num 5) ''USD'' \<rparr>]
   \<and> saveEvents [] ''E''
       [\<lparr> eventId = ''a'', aggregateId = ''E'', timestamp = 1, version = 1,
          data = FUNDS_DEPOSITED (Num 10) ''USD'' \<rparr>,
        \<lparr> eventId = ''b'', aggregateId = ''E'', timestamp = 2, version = 2,
          data = FUNDS_DEPOSITED (Num 5) ''USD'' \<rparr>] 0
     = (Inl (ValidationError ''Event version is not sequential''), [])"
  by (simp add: saveEvents_def currentVersion_def latestSequence_def)

text \<open>
  The same loop accepts a batch that repeats the version \<open>expectedVersion + 1\<close>, which
  is not a contiguous batch: both events are appended with version 1.
\<close>

lemma saveEvents_accepts_repeated_version:
  "\<not> contiguousBatch ''E'' 0
       [\<lparr> eventId = ''a'', aggregateId = ''E'', timestamp = 1, version = 1,
          data = FUNDS_DEPOSITED (Num 10) ''USD'' \<rparr>,
        \<lparr> eventId = ''b'', aggregateId = ''E'', timestamp = 2, version = 1,
          data = FUNDS_DEPOSITED (Num 5) ''USD'' \<rparr>]
   \<and> saveEvents [] ''E''
       [\<lparr> eventId = ''a'', aggregateId = ''E'', timestamp = 1, version = 1,
          data = FUNDS_DEPOSITED (Num 10) ''USD'' \<rparr>,
        \<lparr> eventId = ''b'', aggregateId = ''E'', timestamp = 2, version = 1,
          data = FUNDS_DEPOSITED (Num 5) ''USD'' \<rparr>] 0
     = (Inr (),
        [\<lparr> eventId = ''a'', aggregateId = ''E'', timestamp = 1, version = 1,
           data = FUNDS_DEPOSITED (Num 10) ''USD'' \<rparr>,
         \<lparr> eventId = ''b'', aggregateId = ''E'', timestamp = 2, version = 1,
           data = FUNDS_DEPOSITED (Num 5) ''USD'' \<rparr>])"
  by (simp add: saveEvents_def currentVersion_def)

text \<open>
  C2. For every store, aggregate, batch and expected version: if the expected version
  differs from the aggregate's current version (the maximum version among its stored
  events, 0 if it has none), \<open>saveEvents\<close> fails with the concurrency error; and
  whenever \<open>saveEvents\<close> fails, with whichever error, the store's log after the call
  is the log before it.
\<close>

theorem saveEvents_stale_version_fails:
  "(expectedVersion \<noteq> latestSequence store aid \<longrightarrow>
      fst (saveEvents store aid events expectedVersion)
        = Inl (ConcurrencyError expectedVersion (latestSequence store aid)))
   \<and> (\<forall>err. fst (saveEvents store aid events expectedVersion) = Inl err \<longrightarrow>
         snd (saveEvents store aid events expectedVersion) = store)"
proof (intro conjI impI allI)
  assume "expectedVersion \<noteq> latestSequence store aid"
  then show "fst (saveEvents store aid events expectedVersion)
        = Inl (ConcurrencyError expectedVersion (latestSequence store aid))"
    by (simp add: saveEvents_def currentVersion_latestSequence)
next
  fix err
  assume "fst (saveEvents store aid events expectedVersion) = Inl err"
  then show "snd (saveEvents store aid events expectedVersion) = store"
    by (rule saveEvents_failure_keeps_store)
qed

text \<open>
  An instance: the store holds version 1 of aggregate \<open>E\<close>. A writer that expects
  version 0 fails with the concurrency error, and a writer that expects version 1 but
  sends version 3 fails in validation; the log is the same after both.
\<close>

theorem saveEvents_stale_version_fails_witness:
  "fst (saveEvents
      [\<lparr> eventId = ''a'', aggregateId = ''E'', timestamp = 1, version = 1,
         data = USER_CREATED ''E'' ''Ann'' ''ann@example.org'' \<rparr>] ''E''
      [\<lparr> eventId = ''b'', aggregateId = ''E'', timestamp = 2, version = 1,
         data = FUNDS_DEPOSITED (Num 5) ''USD'' \<rparr>] 0)
     = Inl (ConcurrencyError 0 1)
   \<and> snd (saveEvents
      [\<lparr> eventId = ''a'', aggregateId = ''E'', timestamp = 1, version = 1,
         data = USER_CREATED ''E'' ''Ann'' ''ann@example.org'' \<rparr>] ''E''
      [\<lparr> eventId = ''b'', aggregateId = ''E'', timestamp = 2, version = 1,
         data = FUNDS_DEPOSITED (Num 5) ''USD'' \<rparr>] 0)
     = [\<lparr> eventId = ''a'', aggregateId = ''E'', timestamp = 1, version = 1,
         data = USER_CREATED ''E'' ''Ann'' ''ann@example.org'' \<rparr>]
   \<and> fst (saveEvents
      [\<lparr> eventId = ''a'', aggregateId = ''E'', timestamp = 1, version = 1,
         data = USER_CREATED ''E'' ''Ann'' ''ann@example.org'' \<rparr>] ''E''
      [\<lparr> eventId = ''c'', aggregateId = ''E'', timestamp = 2, version = 3,
         data = FUNDS_DEPOSITED (Num 5) ''USD'' \<rparr>] 1)
     = Inl (ValidationError ''Event version is not sequential'')
   \<and> snd (saveEvents
      [\<lparr> eventId = ''a'', aggregateId = ''E'', timestamp = 1, version = 1,
         data = USER_CREATED ''E'' ''Ann'' ''ann@example.org'' \<rparr>] ''E''
      [\<lparr> eventId = ''c'', aggregateId = ''E'', timestamp = 2, version = 3,
         data = FUNDS_DEPOSITED (Num 5) ''USD'' \<rparr>] 1)
     = [\<lparr> eventId = ''a'', aggregateId = ''E'', timestamp = 1, version = 1,
         data = USER_CREATED ''E'' ''Ann'' ''ann@example.org'' \<rparr>]"
proof -
  let ?S = "[\<lparr> eventId = ''a'', aggregateId = ''E'', timestamp = 1, version = 1,
         data = USER_CREATED ''E'' ''Ann'' ''ann@example.org'' \<rparr>]"
  let ?B = "[\<lparr> eventId = ''b'', aggregateId = ''E'', timestamp = 2, version = 1,
         data = FUNDS_DEPOSITED (Num 5) ''USD'' \<rparr>]"
  let ?C = "[\<lparr> eventId = ''c'', aggregateId = ''E'', timestamp = 2, version = 3,
         data = FUNDS_DEPOSITED (Num 5) ''USD'' \<rparr>]"
  have v: "latestSequence ?S ''E'' = 1"
    by (simp add: latestSequence_def)
  have f: "fst (saveEvents ?S ''E'' ?C 1)
             = Inl (ValidationError ''Event version is not sequential'')"
    by (simp add: saveEvents_def currentVersion_def)
  from saveEvents_stale_version_fails [of 0 ?S "''E''" ?B] v
  have a: "fst (saveEvents ?S ''E'' ?B 0) = Inl (ConcurrencyError 0 1)"
    and b: "snd (saveEvents ?S ''E'' ?B 0) = ?S"
    by simp_all
  from saveEvents_stale_version_fails [of 1 ?S "''E''" ?C] f
  have c: "snd (saveEvents ?S ''E'' ?C 1) = ?S"
    by simp
  from a b f c show ?thesis by simp
qed

text \<open>
  C10. For every store and aggregate, \<open>saveEvents\<close> with the empty batch and the
  aggregate's current version as the expected version raises no error and leaves the
  log as it was.
\<close>

theorem saveEvents_empty_batch:
  "saveEvents store aid [] (latestSequence store aid) = (Inr (), store)"
  by (simp add: saveEvents_def currentVersion_latestSequence)

section \<open>Properties of the decider\<close>

lemma handleCommand_state: "snd (handleCommand st command eid now) = st"
  by (simp add: handleCommand_def handleCreateUser_def handleDepositFunds_def
      handleWithdrawFunds_def handleCloseAccount_def split: CommandData.split)

lemma handleCommand_events:
  "fst (handleCommand st command eid now) = Inr events \<Longrightarrow>
     \<exists>d. events = [\<lparr> eventId = eid, aggregateId = cmd_aggregateId command,
                     timestamp = now, version = state_version st + 1, data = d \<rparr>]"
  by (auto simp add: handleCommand_def handleCreateUser_def handleDepositFunds_def
      handleWithdrawFunds_def handleCloseAccount_def split: CommandData.splits if_splits)

lemma applyEvent_version: "state_version (applyEvent st e) = version e"
  by (simp add: applyEvent_def Let_def split: EventData.split)

text \<open>
  What \<open>handleWithdrawFunds\<close> does, guard by guard: it throws when the account is
  closed, when \<open>amount <= 0\<close>, and when \<open>balance < amount\<close>; otherwise it returns one
  FUNDS_WITHDRAWN event with the command's amount and currency and the version
  \<open>state.version + 1\<close>.
\<close>

lemma handleWithdrawFunds_outcome:
  "fst (handleWithdrawFunds st aid amount currency eid now) =
     (if state_isClosed st then Inl (DomainError ''Cannot withdraw from closed account'')
      else if num_le amount (Num 0) then
        Inl (DomainError ''Withdrawal amount must be positive'')
      else if num_lt (state_balance st) amount then Inl (DomainError ''Insufficient funds'')
      else Inr [\<lparr> eventId = eid, aggregateId = aid, timestamp = now,
                  version = state_version st + 1,
                  data = FUNDS_WITHDRAWN amount currency \<rparr>])"
  by (simp add: handleWithdrawFunds_def)

text \<open>
  For an amount other than \<open>NaN\<close>, \<open>amount <= 0\<close> is the same as "not \<open>amount > 0\<close>",
  and the withdrawal fails exactly when the account is closed, the amount is not
  greater than 0, or the balance is less than the amount.
\<close>

lemma num_le_zero_iff: "amount \<noteq> NaN \<Longrightarrow> num_le amount (Num 0) \<longleftrightarrow> \<not> num_gt amount (Num 0)"
  by (cases amount) (auto simp: num_gt_def)

lemma handleWithdrawFunds_fails_iff:
  assumes "amount \<noteq> NaN"
  shows "(\<exists>msg. fst (handleWithdrawFunds st aid amount currency eid now)
                  = Inl (DomainError msg)) \<longleftrightarrow>
         state_isClosed st \<or> \<not> num_gt amount (Num 0) \<or> num_lt (state_balance st) amount"
  using num_le_zero_iff [OF assms] by (simp add: handleWithdrawFunds_outcome)

text \<open>
  C5. The claim: a withdrawal fails exactly when the account is closed, or the amount
  is not greater than 0, or the balance is less than the amount; otherwise it returns
  one FUNDS_WITHDRAWN event with the command's amount and currency and version
  \<open>state.version + 1\<close>. The guard of \<open>handleWithdrawFunds\<close> is \<open>amount <= 0\<close>, with the
  message "Withdrawal amount must be positive". \<open>NaN\<close> is not greater than 0, yet
  \<open>NaN <= 0\<close> and \<open>balance < NaN\<close> are both false: on the zero state of aggregate \<open>E\<close>
  the withdrawal of \<open>NaN\<close> does not fail, it returns a FUNDS_WITHDRAWN event with
  amount \<open>NaN\<close>.
\<close>

theorem handleWithdrawFunds_accepts_NaN:
  "\<not> num_gt NaN (Num 0)
   \<and> handleCommand (AccountAggregate ''E'')
       \<lparr> commandId = ''c'', cmd_aggregateId = ''E'', cmd_timestamp = 1,
         cmd_data = WITHDRAW_FUNDS NaN ''USD'' \<rparr> ''id'' 1
     = (Inr [\<lparr> eventId = ''id'', aggregateId = ''E'', timestamp = 1, version = 1,
               data = FUNDS_WITHDRAWN NaN ''USD'' \<rparr>], AccountAggregate ''E'')"
  by (simp add: handleCommand_def handleWithdrawFunds_def AccountAggregate_def num_gt_def)

text \<open>
  C7. For every state of the decider whose closed flag is set, and every amount and
  currency, a DEPOSIT_FUNDS command fails with the decider's error "Cannot deposit to
  closed account", and \<open>getState\<close> after the failed call returns what it returned
  before.
\<close>

theorem handleCommand_deposit_closed:
  assumes "state_isClosed st"
    and "cmd_data command = DEPOSIT_FUNDS amount currency"
  shows "fst (handleCommand st command eid now)
           = Inl (DomainError ''Cannot deposit to closed account'')
       \<and> getState (snd (handleCommand st command eid now)) = getState st"
  using assms by (simp add: handleCommand_def handleDepositFunds_def)

theorem handleCommand_deposit_closed_witness:
  "state_isClosed ((AccountAggregate ''E'')\<lparr> state_isClosed := True \<rparr>)
   \<and> fst (handleCommand ((AccountAggregate ''E'')\<lparr> state_isClosed := True \<rparr>)
         \<lparr> commandId = ''c'', cmd_aggregateId = ''E'', cmd_timestamp = 1,
           cmd_data = DEPOSIT_FUNDS (Num 10) ''USD'' \<rparr> ''id'' 1)
       = Inl (DomainError ''Cannot deposit to closed account'')
   \<and> getState (snd (handleCommand ((AccountAggregate ''E'')\<lparr> state_isClosed := True \<rparr>)
         \<lparr> commandId = ''c'', cmd_aggregateId = ''E'', cmd_timestamp = 1,
           cmd_data = DEPOSIT_FUNDS (Num 10) ''USD'' \<rparr> ''id'' 1))
       = getState ((AccountAggregate ''E'')\<lparr> state_isClosed := True \<rparr>)"
proof -
  have closed: "state_isClosed ((AccountAggregate ''E'')\<lparr> state_isClosed := True \<rparr>)"
    by simp
  have deposit: "cmd_data \<lparr> commandId = ''c'', cmd_aggregateId = ''E'', cmd_timestamp = 1,
           cmd_data = DEPOSIT_FUNDS (Num 10) ''USD'' \<rparr> = DEPOSIT_FUNDS (Num 10) ''USD''"
    by simp
  from handleCommand_deposit_closed [OF closed deposit, of "''id''" 1] closed
  show ?thesis by simp
qed

text \<open>
  C8. For every state of the decider and every command, a call of \<open>handleCommand\<close> that
  succeeds returns events (one or more) and leaves the decider's state as it was:
  \<open>getState\<close> returns the same value before and after, so the version is not advanced
  by the call. The version is set when the returned events are applied by
  \<open>loadFromHistory\<close>, to the version of the last event; for a state version from 0
  below \<open>2 ^ 53\<close>, where adding 1 is exact in the source, each returned event has version
  \<open>state.version + 1\<close> and loading the events advances the version by one.
\<close>

theorem handleCommand_leaves_state:
  assumes "fst (handleCommand st command eid now) = Inr events"
  shows "events \<noteq> []
       \<and> getState (snd (handleCommand st command eid now)) = getState st
       \<and> state_version (getState (snd (handleCommand st command eid now)))
           = state_version st
       \<and> state_version (loadFromHistory st events) = version (last events)
       \<and> (0 \<le> state_version st \<and> state_version st < 2 ^ 53 \<longrightarrow>
            list_all (\<lambda>e. version e = state_version st + 1) events
          \<and> state_version (loadFromHistory st events) = state_version st + 1)"
proof -
  from handleCommand_events [OF assms] obtain e where events: "events = [e]"
    and e: "version e = state_version st + 1"
    by auto
  have loaded: "state_version (loadFromHistory st events) = version (last events)"
    by (simp add: events loadFromHistory_def applyEvent_version)
  have frame: "getState (snd (handleCommand st command eid now)) = getState st"
    by (simp add: handleCommand_state)
  from loaded frame show ?thesis
    by (simp add: events e getState_def)
qed

theorem handleCommand_leaves_state_witness:
  "0 \<le> state_version (AccountAggregate ''E'')
   \<and> state_version (AccountAggregate ''E'') < 2 ^ 53
   \<and> fst (handleCommand (AccountAggregate ''E'')
         \<lparr> commandId = ''c'', cmd_aggregateId = ''E'', cmd_timestamp = 1,
           cmd_data = DEPOSIT_FUNDS (Num 100) ''USD'' \<rparr> ''id'' 1)
     = Inr [\<lparr> eventId = ''id'', aggregateId = ''E'', timestamp = 1, version = 1,
              data = FUNDS_DEPOSITED (Num 100) ''USD'' \<rparr>]
   \<and> getState (snd (handleCommand (AccountAggregate ''E'')
         \<lparr> commandId = ''c'', cmd_aggregateId = ''E'', cmd_timestamp = 1,
           cmd_data = DEPOSIT_FUNDS (Num 100) ''USD'' \<rparr> ''id'' 1))
     = getState (AccountAggregate ''E'')
   \<and> state_version (getState (snd (handleCommand (AccountAggregate ''E'')
         \<lparr> commandId = ''c'', cmd_aggregateId = ''E'', cmd_timestamp = 1,
           cmd_data = DEPOSIT_FUNDS (Num 100) ''USD'' \<rparr> ''id'' 1))) = 0
   \<and> state_version (loadFromHistory (AccountAggregate ''E'')
         [\<lparr> eventId = ''id'', aggregateId = ''E'', timestamp = 1, version = 1,
            data = FUNDS_DEPOSITED (Num 100) ''USD'' \<rparr>]) = 1"
proof -
  have ok: "fst (handleCommand (AccountAggregate ''E'')
         \<lparr> commandId = ''c'', cmd_aggregateId = ''E'', cmd_timestamp = 1,
           cmd_data = DEPOSIT_FUNDS (Num 100) ''USD'' \<rparr> ''id'' 1)
     = Inr [\<lparr> eventId = ''id'', aggregateId = ''E'', timestamp = 1, version = 1,
              data = FUNDS_DEPOSITED (Num 100) ''USD'' \<rparr>]"
    by (simp add: handleCommand_def handleDepositFunds_def AccountAggregate_def)
  have zero: "state_version (AccountAggregate ''E'') = 0"
    by (simp add: AccountAggregate_def)
  from handleCommand_leaves_state [OF ok] ok zero show ?thesis
    by (simp add: getState_def)
qed

section \<open>Properties of the projection\<close>

lemma processEach_foldl: "processEach views events = foldl processEvent views events"
  by (induction events arbitrary: views) simp_all

lemma processEach_snoc:
  "processEach views (F @ [e]) = processEvent (processEach views F) e"
  by (simp add: processEach_foldl)

text \<open>
  C4. For every list of events \<open>F\<close> and every projection, whatever views it holds,
  \<open>rebuildFromEvents\<close> with \<open>F\<close> leaves exactly the views that calling \<open>processEvent\<close>
  once per event of \<open>F\<close>, in order, builds on a new projection.
\<close>

theorem rebuildFromEvents_incremental:
  "rebuildFromEvents views F = processEach AccountProjection F"
  by (simp add: rebuildFromEvents_def processEach_foldl AccountProjection_def)

section \<open>The two folds\<close>

lemma loadFromHistory_snoc:
  "loadFromHistory st (F @ [e]) = applyEvent (loadFromHistory st F) e"
  by (simp add: loadFromHistory_def)

lemma applyEvent_currency: "state_currency (applyEvent st e) = state_currency st"
  by (simp add: applyEvent_def Let_def split: EventData.split)

lemma loadFromHistory_currency: "state_currency (loadFromHistory st F) = state_currency st"
  unfolding loadFromHistory_def
  by (induction F arbitrary: st) (simp_all add: applyEvent_currency)

lemma processEvent_deposit_currency:
  "data e = FUNDS_DEPOSITED amount C \<Longrightarrow>
     \<exists>v. getAccountView (processEvent views e) (aggregateId e) = Some v
         \<and> view_currency v = C"
  by (simp add: processEvent_def getAccountView_def Let_def)

text \<open>One event, applied to the zero state and to a projection without a view for it.\<close>

lemma processEvent_new_view:
  assumes "views (aggregateId e) = None"
  shows "\<exists>v. processEvent views e (aggregateId e) = Some v
           \<and> view_balance v = state_balance (applyEvent (AccountAggregate aid) e)
           \<and> view_isClosed v = state_isClosed (applyEvent (AccountAggregate aid) e)"
  using assms
  by (simp add: processEvent_def applyEvent_def Let_def AccountAggregate_def
        split: EventData.split)

text \<open>One event, applied to a state and to a view that agree.\<close>

lemma processEvent_known_view:
  assumes "views (aggregateId e) = Some v"
    and "view_balance v = state_balance st"
    and "view_isClosed v = state_isClosed st"
  shows "\<exists>v'. processEvent views e (aggregateId e) = Some v'
           \<and> view_balance v' = state_balance (applyEvent st e)
           \<and> view_isClosed v' = state_isClosed (applyEvent st e)"
  using assms
  by (simp add: processEvent_def applyEvent_def Let_def split: EventData.split)

lemma folds_invariant:
  assumes "\<forall>e \<in> set F. aggregateId e = E"
  shows "(F = [] \<and> processEach AccountProjection F E = None) \<or>
         (F \<noteq> [] \<and> (\<exists>v. processEach AccountProjection F E = Some v
            \<and> view_balance v = state_balance (loadFromHistory (AccountAggregate E) F)
            \<and> view_isClosed v = state_isClosed (loadFromHistory (AccountAggregate E) F)))"
  using assms
proof (induction F rule: rev_induct)
  case Nil
  show ?case by (simp add: AccountProjection_def)
next
  case (snoc e F)
  then have eE: "aggregateId e = E" and all: "\<forall>e \<in> set F. aggregateId e = E"
    by simp_all
  from snoc.IH [OF all] show ?case
  proof
    assume "F = [] \<and> processEach AccountProjection F E = None"
    then have F: "F = []" and none: "AccountProjection (aggregateId e) = None"
      by (simp_all add: AccountProjection_def)
    from processEvent_new_view [where views = AccountProjection and e = e and aid = E,
        OF none]
    show ?thesis
      using F eE by (simp add: loadFromHistory_def)
  next
    assume "F \<noteq> [] \<and> (\<exists>v. processEach AccountProjection F E = Some v
            \<and> view_balance v = state_balance (loadFromHistory (AccountAggregate E) F)
            \<and> view_isClosed v = state_isClosed (loadFromHistory (AccountAggregate E) F))"
    then obtain v where v: "processEach AccountProjection F (aggregateId e) = Some v"
      and b: "view_balance v = state_balance (loadFromHistory (AccountAggregate E) F)"
      and c: "view_isClosed v = state_isClosed (loadFromHistory (AccountAggregate E) F)"
      using eE by auto
    from processEvent_known_view
           [where views = "processEach AccountProjection F" and e = e, OF v b c]
    show ?thesis
      using eE by (simp add: processEach_snoc loadFromHistory_snoc)
  qed
qed

text \<open>
  C3. The claim: for every sequence of events folded from the zero state, the fold of
  the decider (\<open>loadFromHistory\<close>) and the fold of the projection (\<open>processEvent\<close>) are
  deterministic, and they agree on the fields version, balance and closed of the
  resulting state and view. A view has no version: \<open>AccountView\<close> has no such field
  and \<open>processEvent\<close> reads no version. Two histories of aggregate \<open>E\<close>, one deposit
  of 5 and two deposits of 2 and 3, give one and the same view, while the decider's
  version is 1 after the first and 2 after the second; so nothing in the view agrees
  with the decider's version.
\<close>

theorem folds_version_counterexample:
  "getAccountView (processEach AccountProjection
      [\<lparr> eventId = ''a'', aggregateId = ''E'', timestamp = 7, version = 1,
         data = FUNDS_DEPOSITED (Num 5) ''USD'' \<rparr>]) ''E''
   = getAccountView (processEach AccountProjection
      [\<lparr> eventId = ''b'', aggregateId = ''E'', timestamp = 7, version = 1,
         data = FUNDS_DEPOSITED (Num 2) ''USD'' \<rparr>,
       \<lparr> eventId = ''c'', aggregateId = ''E'', timestamp = 7, version = 2,
         data = FUNDS_DEPOSITED (Num 3) ''USD'' \<rparr>]) ''E''
   \<and> state_version (loadFromHistory (AccountAggregate ''E'')
      [\<lparr> eventId = ''a'', aggregateId = ''E'', timestamp = 7, version = 1,
         data = FUNDS_DEPOSITED (Num 5) ''USD'' \<rparr>]) = 1
   \<and> state_version (loadFromHistory (AccountAggregate ''E'')
      [\<lparr> eventId = ''b'', aggregateId = ''E'', timestamp = 7, version = 1,
         data = FUNDS_DEPOSITED (Num 2) ''USD'' \<rparr>,
       \<lparr> eventId = ''c'', aggregateId = ''E'', timestamp = 7, version = 2,
         data = FUNDS_DEPOSITED (Num 3) ''USD'' \<rparr>]) = 2"
  by (simp add: getAccountView_def processEvent_def AccountProjection_def
        loadFromHistory_def applyEvent_def AccountAggregate_def)

text \<open>
  C3, amended. For every sequence \<open>F\<close> of events of one aggregate \<open>E\<close>, folded in order
  from the zero state of \<open>E\<close> by the decider and from a new projection by the
  projection: both folds are functions of the sequence alone (equal sequences give
  equal results), the projection holds a view for \<open>E\<close> exactly when \<open>F\<close> is not empty,
  and that view agrees with the decider's state on balance and closed.
\<close>

theorem folds_agree:
  assumes "\<forall>e \<in> set F. aggregateId e = E"
  shows "(F' = F \<longrightarrow>
            loadFromHistory (AccountAggregate E) F' = loadFromHistory (AccountAggregate E) F
          \<and> processEach AccountProjection F' = processEach AccountProjection F)
       \<and> (case getAccountView (processEach AccountProjection F) E of
            None \<Rightarrow> F = []
          | Some v \<Rightarrow> F \<noteq> []
              \<and> view_balance v = state_balance (loadFromHistory (AccountAggregate E) F)
              \<and> view_isClosed v = state_isClosed (loadFromHistory (AccountAggregate E) F))"
  using folds_invariant [OF assms] by (auto simp: getAccountView_def)

theorem folds_agree_witness:
  "\<exists>v. getAccountView (processEach AccountProjection
          [\<lparr> eventId = ''a'', aggregateId = ''E'', timestamp = 1, version = 1,
             data = USER_CREATED ''E'' ''Ann'' ''ann@example.org'' \<rparr>,
           \<lparr> eventId = ''b'', aggregateId = ''E'', timestamp = 2, version = 2,
             data = FUNDS_DEPOSITED (Num 100) ''EUR'' \<rparr>,
           \<lparr> eventId = ''c'', aggregateId = ''E'', timestamp = 3, version = 3,
             data = ACCOUNT_CLOSED ''done'' \<rparr>]) ''E'' = Some v
      \<and> view_balance v = Num 100 \<and> view_isClosed v
      \<and> state_balance (loadFromHistory (AccountAggregate ''E'')
          [\<lparr> eventId = ''a'', aggregateId = ''E'', timestamp = 1, version = 1,
             data = USER_CREATED ''E'' ''Ann'' ''ann@example.org'' \<rparr>,
           \<lparr> eventId = ''b'', aggregateId = ''E'', timestamp = 2, version = 2,
             data = FUNDS_DEPOSITED (Num 100) ''EUR'' \<rparr>,
           \<lparr> eventId = ''c'', aggregateId = ''E'', timestamp = 3, version = 3,
             data = ACCOUNT_CLOSED ''done'' \<rparr>]) = Num 100
      \<and> state_isClosed (loadFromHistory (AccountAggregate ''E'')
          [\<lparr> eventId = ''a'', aggregateId = ''E'', timestamp = 1, version = 1,
             data = USER_CREATED ''E'' ''Ann'' ''ann@example.org'' \<rparr>,
           \<lparr> eventId = ''b'', aggregateId = ''E'', timestamp = 2, version = 2,
             data = FUNDS_DEPOSITED (Num 100) ''EUR'' \<rparr>,
           \<lparr> eventId = ''c'', aggregateId = ''E'', timestamp = 3, version = 3,
             data = ACCOUNT_CLOSED ''done'' \<rparr>])"
proof -
  let ?F = "[\<lparr> eventId = ''a'', aggregateId = ''E'', timestamp = 1, version = 1,
             data = USER_CREATED ''E'' ''Ann'' ''ann@example.org'' \<rparr>,
           \<lparr> eventId = ''b'', aggregateId = ''E'', timestamp = 2, version = 2,
             data = FUNDS_DEPOSITED (Num 100) ''EUR'' \<rparr>,
           \<lparr> eventId = ''c'', aggregateId = ''E'', timestamp = 3, version = 3,
             data = ACCOUNT_CLOSED ''done'' \<rparr>]"
  have own: "\<forall>e \<in> set ?F. aggregateId e = ''E''"
    by simp
  have balance: "state_balance (loadFromHistory (AccountAggregate ''E'') ?F) = Num 100"
    by (simp add: loadFromHistory_def applyEvent_def AccountAggregate_def)
  have closed: "state_isClosed (loadFromHistory (AccountAggregate ''E'') ?F)"
    by (simp add: loadFromHistory_def applyEvent_def AccountAggregate_def)
  from folds_agree [OF own, where F' = ?F]
  have "case getAccountView (processEach AccountProjection ?F) ''E'' of
          None \<Rightarrow> False
        | Some v \<Rightarrow> view_balance v = state_balance (loadFromHistory (AccountAggregate ''E'') ?F)
            \<and> view_isClosed v = state_isClosed (loadFromHistory (AccountAggregate ''E'') ?F)"
    by (auto split: option.splits)
  with balance closed show ?thesis
    by (auto split: option.splits)
qed

text \<open>
  C9. For every FUNDS_DEPOSITED event with currency \<open>C\<close>: \<open>processEvent\<close> sets the
  currency of the aggregate's view to \<open>C\<close>; \<open>applyEvent\<close> leaves the currency of the
  decider's state as it is, so that it is "USD" after every sequence of events folded
  from the zero state; and when \<open>C\<close> is not "USD", after any sequence of events that
  ends with this deposit the decider's state and the projection's view of the
  aggregate differ in their currency.
\<close>

theorem deposit_currency_diverges:
  assumes "data e = FUNDS_DEPOSITED amount C"
  shows "(\<exists>v. getAccountView (processEvent views e) (aggregateId e) = Some v
              \<and> view_currency v = C)
       \<and> state_currency (applyEvent st e) = state_currency st
       \<and> state_currency (loadFromHistory (AccountAggregate E) F) = ''USD''
       \<and> (C \<noteq> ''USD'' \<longrightarrow>
            (\<exists>v. getAccountView (processEach AccountProjection (F @ [e])) (aggregateId e)
                    = Some v
                \<and> view_currency v
                    \<noteq> state_currency
                        (loadFromHistory (AccountAggregate (aggregateId e)) (F @ [e]))))"
proof (intro conjI impI)
  show "\<exists>v. getAccountView (processEvent views e) (aggregateId e) = Some v
              \<and> view_currency v = C"
    by (rule processEvent_deposit_currency [OF assms])
  show "state_currency (applyEvent st e) = state_currency st"
    by (rule applyEvent_currency)
  show "state_currency (loadFromHistory (AccountAggregate E) F) = ''USD''"
    by (simp add: loadFromHistory_currency AccountAggregate_def)
next
  assume other: "C \<noteq> ''USD''"
  have usd: "state_currency (loadFromHistory (AccountAggregate (aggregateId e)) (F @ [e]))
               = ''USD''"
    by (simp add: loadFromHistory_currency AccountAggregate_def)
  from processEvent_deposit_currency [OF assms, of "processEach AccountProjection F"]
  obtain v where "getAccountView (processEach AccountProjection (F @ [e])) (aggregateId e)
                    = Some v" and "view_currency v = C"
    by (auto simp: processEach_snoc)
  with other usd
  show "\<exists>v. getAccountView (processEach AccountProjection (F @ [e])) (aggregateId e)
                    = Some v
                \<and> view_currency v
                    \<noteq> state_currency
                        (loadFromHistory (AccountAggregate (aggregateId e)) (F @ [e]))"
    by simp
qed

theorem deposit_currency_diverges_witness:
  "map_option view_currency
     (getAccountView (processEach AccountProjection
        [\<lparr> eventId = ''a'', aggregateId = ''E'', timestamp = 1, version = 1,
           data = FUNDS_DEPOSITED (Num 100) ''EUR'' \<rparr>]) ''E'') = Some ''EUR''
   \<and> state_currency (loadFromHistory (AccountAggregate ''E'')
        [\<lparr> eventId = ''a'', aggregateId = ''E'', timestamp = 1, version = 1,
           data = FUNDS_DEPOSITED (Num 100) ''EUR'' \<rparr>]) = ''USD''
   \<and> (\<exists>v. getAccountView (processEach AccountProjection
              [\<lparr> eventId = ''a'', aggregateId = ''E'', timestamp = 1, version = 1,
                 data = FUNDS_DEPOSITED (Num 100) ''EUR'' \<rparr>]) ''E'' = Some v
          \<and> view_currency v
              \<noteq> state_currency (loadFromHistory (AccountAggregate ''E'')
                  [\<lparr> eventId = ''a'', aggregateId = ''E'', timestamp = 1, version = 1,
                     data = FUNDS_DEPOSITED (Num 100) ''EUR'' \<rparr>]))"
proof -
  let ?e = "\<lparr> eventId = ''a'', aggregateId = ''E'', timestamp = 1, version = 1,
              data = FUNDS_DEPOSITED (Num 100) ''EUR'' \<rparr>"
  have deposit: "data ?e = FUNDS_DEPOSITED (Num 100) ''EUR''"
    by simp
  have other: "''EUR'' \<noteq> ''USD''"
    by simp
  have view: "map_option view_currency
     (getAccountView (processEach AccountProjection [?e]) ''E'') = Some ''EUR''"
    by (simp add: getAccountView_def processEvent_def AccountProjection_def Let_def)
  from deposit_currency_diverges [OF deposit, where F = "[?e]" and E = "''E''"
      and views = AccountProjection and st = "AccountAggregate ''E''"]
  have usd: "state_currency (loadFromHistory (AccountAggregate ''E'') [?e]) = ''USD''"
    by simp
  from deposit_currency_diverges [OF deposit, where F = "[]" and E = "''E''"
      and views = AccountProjection and st = "AccountAggregate ''E''"] other view usd
  show ?thesis
    by simp
qed

section \<open>The scenario: create, deposit 100, withdraw 40, close\<close>

text \<open>
  The four commands go through the server's \<open>handleCommand\<close>, one after the other, from
  an empty store and a new projection. The lemmas give the server's state after each
  command, for every aggregate id, name, email, currency, reason, event id and time.
\<close>

lemmas scenario_defs =
  server_handleCommand_def getEventsForAggregate_def loadFromHistory_def
  handleCommand_def handleCreateUser_def handleDepositFunds_def handleWithdrawFunds_def
  handleCloseAccount_def applyEvent_def AccountAggregate_def truthy_def saveEvents_def
  currentVersion_def processEvent_def AccountProjection_def Let_def

lemma scenario_create:
  "server_handleCommand
     \<lparr> eventStore = [], accountProjection = AccountProjection \<rparr>
     \<lparr> commandId = c1, cmd_aggregateId = E, cmd_timestamp = ct1,
         cmd_data = CREATE_USER name email \<rparr> i1 t1
   = (Inr [\<lparr> eventId = i1, aggregateId = E, timestamp = t1, version = 1,
           data = USER_CREATED E name email \<rparr>],
      \<lparr> eventStore =
          [\<lparr> eventId = i1, aggregateId = E, timestamp = t1, version = 1,
           data = USER_CREATED E name email \<rparr>],
        accountProjection =
          [E \<mapsto> \<lparr> view_aggregateId = E, view_userId = Some E,
             view_name = Some name, view_email = Some email, view_balance = Num 0,
             view_currency = ''USD'', view_isClosed = False, view_lastActivity = t1 \<rparr>] \<rparr>)"
  by (simp add: scenario_defs)

lemma scenario_deposit:
  "server_handleCommand
     \<lparr> eventStore =
          [\<lparr> eventId = i1, aggregateId = E, timestamp = t1, version = 1,
           data = USER_CREATED E name email \<rparr>],
        accountProjection =
          [E \<mapsto> \<lparr> view_aggregateId = E, view_userId = Some E,
             view_name = Some name, view_email = Some email, view_balance = Num 0,
             view_currency = ''USD'', view_isClosed = False, view_lastActivity = t1 \<rparr>] \<rparr>
     \<lparr> commandId = c2, cmd_aggregateId = E, cmd_timestamp = ct2,
         cmd_data = DEPOSIT_FUNDS (Num 100) cur2 \<rparr> i2 t2
   = (Inr [\<lparr> eventId = i2, aggregateId = E, timestamp = t2, version = 2,
           data = FUNDS_DEPOSITED (Num 100) cur2 \<rparr>],
      \<lparr> eventStore =
          [\<lparr> eventId = i1, aggregateId = E, timestamp = t1, version = 1,
           data = USER_CREATED E name email \<rparr>,
           \<lparr> eventId = i2, aggregateId = E, timestamp = t2, version = 2,
           data = FUNDS_DEPOSITED (Num 100) cur2 \<rparr>],
        accountProjection =
          [E \<mapsto> \<lparr> view_aggregateId = E, view_userId = Some E,
             view_name = Some name, view_email = Some email, view_balance = Num 100,
             view_currency = cur2, view_isClosed = False, view_lastActivity = t2 \<rparr>] \<rparr>)"
  by (simp add: scenario_defs)

lemma scenario_withdraw:
  "server_handleCommand
     \<lparr> eventStore =
          [\<lparr> eventId = i1, aggregateId = E, timestamp = t1, version = 1,
           data = USER_CREATED E name email \<rparr>,
           \<lparr> eventId = i2, aggregateId = E, timestamp = t2, version = 2,
           data = FUNDS_DEPOSITED (Num 100) cur2 \<rparr>],
        accountProjection =
          [E \<mapsto> \<lparr> view_aggregateId = E, view_userId = Some E,
             view_name = Some name, view_email = Some email, view_balance = Num 100,
             view_currency = cur2, view_isClosed = False, view_lastActivity = t2 \<rparr>] \<rparr>
     \<lparr> commandId = c3, cmd_aggregateId = E, cmd_timestamp = ct3,
         cmd_data = WITHDRAW_FUNDS (Num 40) cur3 \<rparr> i3 t3
   = (Inr [\<lparr> eventId = i3, aggregateId = E, timestamp = t3, version = 3,
           data = FUNDS_WITHDRAWN (Num 40) cur3 \<rparr>],
      \<lparr> eventStore =
          [\<lparr> eventId = i1, aggregateId = E, timestamp = t1, version = 1,
           data = USER_CREATED E name email \<rparr>,
           \<lparr> eventId = i2, aggregateId = E, timestamp = t2, version = 2,
           data = FUNDS_DEPOSITED (Num 100) cur2 \<rparr>,
           \<lparr> eventId = i3, aggregateId = E, timestamp = t3, version = 3,
           data = FUNDS_WITHDRAWN (Num 40) cur3 \<rparr>],
        accountProjection =
          [E \<mapsto> \<lparr> view_aggregateId = E, view_userId = Some E,
             view_name = Some name, view_email = Some email, view_balance = Num 60,
             view_currency = cur2, view_isClosed = False, view_lastActivity = t3 \<rparr>] \<rparr>)"
  by (simp add: scenario_defs)

lemma scenario_close:
  "server_handleCommand
     \<lparr> eventStore =
          [\<lparr> eventId = i1, aggregateId = E, timestamp = t1, version = 1,
           data = USER_CREATED E name email \<rparr>,
           \<lparr> eventId = i2, aggregateId = E, timestamp = t2, version = 2,
           data = FUNDS_DEPOSITED (Num 100) cur2 \<rparr>,
           \<lparr> eventId = i3, aggregateId = E, timestamp = t3, version = 3,
           data = FUNDS_WITHDRAWN (Num 40) cur3 \<rparr>],
        accountProjection =
          [E \<mapsto> \<lparr> view_aggregateId = E, view_userId = Some E,
             view_name = Some name, view_email = Some email, view_balance = Num 60,
             view_currency = cur2, view_isClosed = False, view_lastActivity = t3 \<rparr>] \<rparr>
     \<lparr> commandId = c4, cmd_aggregateId = E, cmd_timestamp = ct4,
         cmd_data = CLOSE_ACCOUNT reason \<rparr> i4 t4
   = (Inr [\<lparr> eventId = i4, aggregateId = E, timestamp = t4, version = 4,
           data = ACCOUNT_CLOSED reason \<rparr>],
      \<lparr> eventStore =
          [\<lparr> eventId = i1, aggregateId = E, timestamp = t1, version = 1,
           data = USER_CREATED E name email \<rparr>,
           \<lparr> eventId = i2, aggregateId = E, timestamp = t2, version = 2,
           data = FUNDS_DEPOSITED (Num 100) cur2 \<rparr>,
           \<lparr> eventId = i3, aggregateId = E, timestamp = t3, version = 3,
           data = FUNDS_WITHDRAWN (Num 40) cur3 \<rparr>,
           \<lparr> eventId = i4, aggregateId = E, timestamp = t4, version = 4,
           data = ACCOUNT_CLOSED reason \<rparr>],
        accountProjection =
          [E \<mapsto> \<lparr> view_aggregateId = E, view_userId = Some E,
             view_name = Some name, view_email = Some email, view_balance = Num 60,
             view_currency = cur2, view_isClosed = True, view_lastActivity = t4 \<rparr>] \<rparr>)"
  by (simp add: scenario_defs)

lemma scenario_final_state:
  "loadFromHistory (AccountAggregate E)
     (getEventsForAggregate
        [\<lparr> eventId = i1, aggregateId = E, timestamp = t1, version = 1,
           data = USER_CREATED E name email \<rparr>,
         \<lparr> eventId = i2, aggregateId = E, timestamp = t2, version = 2,
           data = FUNDS_DEPOSITED (Num 100) cur2 \<rparr>,
         \<lparr> eventId = i3, aggregateId = E, timestamp = t3, version = 3,
           data = FUNDS_WITHDRAWN (Num 40) cur3 \<rparr>,
         \<lparr> eventId = i4, aggregateId = E, timestamp = t4, version = 4,
           data = ACCOUNT_CLOSED reason \<rparr>] E)
   = \<lparr> state_aggregateId = E, state_version = 4, state_userId = Some E,
       state_name = Some name, state_email = Some email, state_balance = Num 60,
       state_currency = ''USD'', state_isClosed = True \<rparr>"
  by (simp add: scenario_defs)

text \<open>
  C6. The claim: from the zero state of an aggregate \<open>E\<close>, create, deposit 100, withdraw
  40 and close each succeed, with versions 1, 2, 3 and 4, and the final state and the
  final view have balance 60, closed true and version 4. The view has no version.
  The view that the four events of the scenario build is also the view of three
  events (create, deposit 60, close), whose decider state has version 3: the view
  holds nothing that is 4 after the scenario and 3 after the other history.
\<close>

theorem scenario_view_version_counterexample:
  "getAccountView (processEach AccountProjection
      [\<lparr> eventId = ''1'', aggregateId = ''E'', timestamp = 1, version = 1,
         data = USER_CREATED ''E'' ''Ann'' ''ann@example.org'' \<rparr>,
       \<lparr> eventId = ''2'', aggregateId = ''E'', timestamp = 2, version = 2,
         data = FUNDS_DEPOSITED (Num 100) ''USD'' \<rparr>,
       \<lparr> eventId = ''3'', aggregateId = ''E'', timestamp = 3, version = 3,
         data = FUNDS_WITHDRAWN (Num 40) ''USD'' \<rparr>,
       \<lparr> eventId = ''4'', aggregateId = ''E'', timestamp = 4, version = 4,
         data = ACCOUNT_CLOSED ''done'' \<rparr>]) ''E''
   = getAccountView (processEach AccountProjection
      [\<lparr> eventId = ''1'', aggregateId = ''E'', timestamp = 1, version = 1,
         data = USER_CREATED ''E'' ''Ann'' ''ann@example.org'' \<rparr>,
       \<lparr> eventId = ''2'', aggregateId = ''E'', timestamp = 2, version = 2,
         data = FUNDS_DEPOSITED (Num 60) ''USD'' \<rparr>,
       \<lparr> eventId = ''5'', aggregateId = ''E'', timestamp = 4, version = 3,
         data = ACCOUNT_CLOSED ''done'' \<rparr>]) ''E''
   \<and> state_version (loadFromHistory (AccountAggregate ''E'')
      [\<lparr> eventId = ''1'', aggregateId = ''E'', timestamp = 1, version = 1,
         data = USER_CREATED ''E'' ''Ann'' ''ann@example.org'' \<rparr>,
       \<lparr> eventId = ''2'', aggregateId = ''E'', timestamp = 2, version = 2,
         data = FUNDS_DEPOSITED (Num 100) ''USD'' \<rparr>,
       \<lparr> eventId = ''3'', aggregateId = ''E'', timestamp = 3, version = 3,
         data = FUNDS_WITHDRAWN (Num 40) ''USD'' \<rparr>,
       \<lparr> eventId = ''4'', aggregateId = ''E'', timestamp = 4, version = 4,
         data = ACCOUNT_CLOSED ''done'' \<rparr>]) = 4
   \<and> state_version (loadFromHistory (AccountAggregate ''E'')
      [\<lparr> eventId = ''1'', aggregateId = ''E'', timestamp = 1, version = 1,
         data = USER_CREATED ''E'' ''Ann'' ''ann@example.org'' \<rparr>,
       \<lparr> eventId = ''2'', aggregateId = ''E'', timestamp = 2, version = 2,
         data = FUNDS_DEPOSITED (Num 60) ''USD'' \<rparr>,
       \<lparr> eventId = ''5'', aggregateId = ''E'', timestamp = 4, version = 3,
         data = ACCOUNT_CLOSED ''done'' \<rparr>]) = 3"
  by (simp add: getAccountView_def processEvent_def AccountProjection_def
        loadFromHistory_def applyEvent_def AccountAggregate_def)

text \<open>
  C6, amended. From an empty store and a new projection, the commands create, deposit
  100, withdraw 40 and close for an aggregate \<open>E\<close> each succeed, and each returns one
  event, with versions 1, 2, 3 and 4. The decider's state loaded from the store's
  events of \<open>E\<close> then has version 4, balance 60 and closed true, and the view of \<open>E\<close>
  has balance 60 and closed true.
\<close>

theorem scenario_create_deposit_withdraw_close:
  "\<exists>s1 s2 s3 s4.
     server_handleCommand \<lparr> eventStore = [], accountProjection = AccountProjection \<rparr>
       \<lparr> commandId = c1, cmd_aggregateId = E, cmd_timestamp = ct1,
         cmd_data = CREATE_USER name email \<rparr> i1 t1
     = (Inr [\<lparr> eventId = i1, aggregateId = E, timestamp = t1, version = 1,
           data = USER_CREATED E name email \<rparr>], s1)
   \<and> server_handleCommand s1
       \<lparr> commandId = c2, cmd_aggregateId = E, cmd_timestamp = ct2,
         cmd_data = DEPOSIT_FUNDS (Num 100) cur2 \<rparr> i2 t2
     = (Inr [\<lparr> eventId = i2, aggregateId = E, timestamp = t2, version = 2,
           data = FUNDS_DEPOSITED (Num 100) cur2 \<rparr>], s2)
   \<and> server_handleCommand s2
       \<lparr> commandId = c3, cmd_aggregateId = E, cmd_timestamp = ct3,
         cmd_data = WITHDRAW_FUNDS (Num 40) cur3 \<rparr> i3 t3
     = (Inr [\<lparr> eventId = i3, aggregateId = E, timestamp = t3, version = 3,
           data = FUNDS_WITHDRAWN (Num 40) cur3 \<rparr>], s3)
   \<and> server_handleCommand s3
       \<lparr> commandId = c4, cmd_aggregateId = E, cmd_timestamp = ct4,
         cmd_data = CLOSE_ACCOUNT reason \<rparr> i4 t4
     = (Inr [\<lparr> eventId = i4, aggregateId = E, timestamp = t4, version = 4,
           data = ACCOUNT_CLOSED reason \<rparr>], s4)
   \<and> getState (loadFromHistory (AccountAggregate E)
                 (getEventsForAggregate (eventStore s4) E))
     = \<lparr> state_aggregateId = E, state_version = 4, state_userId = Some E,
         state_name = Some name, state_email = Some email, state_balance = Num 60,
         state_currency = ''USD'', state_isClosed = True \<rparr>
   \<and> map_option (\<lambda>v. (view_balance v, view_isClosed v))
       (getAccountView (accountProjection s4) E) = Some (Num 60, True)"
  apply (intro exI conjI)
       apply (rule scenario_create)
      apply (rule scenario_deposit)
     apply (rule scenario_withdraw)
    apply (rule scenario_close)
   apply (simp add: getState_def scenario_final_state)
  apply (simp add: getAccountView_def)
  done

end
